theory Spec2Isabelle
  imports Main "HOL-Library.Sublist"
begin

section \<open>DFN interval control: the night session controller\<close>

text \<open>
  A shallow embedding of \<^verbatim>\<open>interval_control_lin.py\<close>. The script drives a camera
  station through one night. Everything it does is a call to a collaborator (the
  microcontroller module \<^verbatim>\<open>leo\<close>, the camera wrapper \<^verbatim>\<open>cam\<close>, the helpers
  \<^verbatim>\<open>dfn\<close>, the cloud monitor \<^verbatim>\<open>cc\<close>, \<^verbatim>\<open>subprocess\<close>, the logger), so
  the model threads a world through the code: a virtual clock, the trace of the calls
  made so far, and the module's global name \<^verbatim>\<open>ser\<close>. What the collaborators answer
  is an environment of functions of the world; theorems quantify over it.

  The collaborators are taken to return: the exceptions of the model are the ones the
  script can raise by itself (a missing configuration key, \<^verbatim>\<open>int\<close> of a string that
  is no number, a concatenation of a string with a value that is none, a sleep of negative
  length, a name that is not bound) and the ones of \<^verbatim>\<open>subprocess\<close>, whose handling
  the script writes out. File names and the image reference are strings. The leeway goes
  through \<^verbatim>\<open>float\<close> and \<^verbatim>\<open>datetime.timedelta\<close>: \<^verbatim>\<open>timedelta_minutes\<close> of the
  environment says, for each configuration value, which duration in microseconds the two
  give or which exception they raise (ValueError for a string that is no number).
\<close>

subsection \<open>Python values and exceptions\<close>

datatype error =
    NameError string
  | UnboundLocalError string
  | KeyError string
  | TypeError
  | ValueError
  | IOError
  | OverflowError
  | OSError
  | CalledProcessError

text \<open>Configuration values are dynamically typed: the code applies \<^verbatim>\<open>int\<close>,
  \<^verbatim>\<open>str\<close>, \<^verbatim>\<open>==\<close> and string concatenation to them.\<close>

datatype pyval = PStr string | PInt int | PBool bool

type_synonym cfg_section = "string \<rightharpoonup> pyval"
type_synonym config = "string \<rightharpoonup> cfg_section"

definition is_space :: "char \<Rightarrow> bool" where
  "is_space c = (c = CHR '' '' \<or> c = CHR 0x09 \<or> c = CHR 0x0A \<or> c = CHR 0x0B
                 \<or> c = CHR 0x0C \<or> c = CHR 0x0D)"

definition strip :: "string \<Rightarrow> string" where
  "strip s = rev (dropWhile is_space (rev (dropWhile is_space s)))"

definition is_digit :: "char \<Rightarrow> bool" where
  "is_digit c = (c \<in> set ''0123456789'')"

definition digit_val :: "char \<Rightarrow> nat" where
  "digit_val c = (case map_of (zip ''0123456789'' [0, 1, 2, 3, 4, 5, 6, 7, 8, 9]) c of
                    Some d \<Rightarrow> d | None \<Rightarrow> 0)"

definition digit_char :: "nat \<Rightarrow> char" where
  "digit_char d = ''0123456789'' ! d"

definition parse_nat :: "string \<Rightarrow> nat option" where
  "parse_nat s = (if s \<noteq> [] \<and> list_all is_digit s
                  then Some (foldl (\<lambda>acc c. acc * 10 + digit_val c) 0 s) else None)"

text \<open>\<^verbatim>\<open>int(s)\<close> on a string: surrounding whitespace, an optional sign, decimal digits.\<close>

definition int_of_str :: "string \<Rightarrow> int option" where
  "int_of_str s =
     (case strip s of
        [] \<Rightarrow> None
      | c # cs \<Rightarrow>
          if c = CHR ''-'' then map_option (\<lambda>n. - int n) (parse_nat cs)
          else if c = CHR ''+'' then map_option int (parse_nat cs)
          else map_option int (parse_nat (c # cs)))"

fun digits :: "nat \<Rightarrow> string" where
  "digits n = (if n < 10 then [digit_char n] else digits (n div 10) @ [digit_char (n mod 10)])"

declare digits.simps [simp del]

definition str_of_int :: "int \<Rightarrow> string" where
  "str_of_int i = (if i < 0 then CHR ''-'' # digits (nat (- i)) else digits (nat i))"

definition py_int :: "pyval \<Rightarrow> error + int" where
  "py_int v =
     (case v of
        PInt n \<Rightarrow> Inr n
      | PBool b \<Rightarrow> Inr (if b then 1 else 0)
      | PStr s \<Rightarrow> (case int_of_str s of None \<Rightarrow> Inl ValueError | Some n \<Rightarrow> Inr n))"


text \<open>\<^verbatim>\<open>'literal' + v\<close>: only a string can be concatenated to a string.\<close>

definition str_concat :: "pyval \<Rightarrow> error + string" where
  "str_concat v = (case v of PStr s \<Rightarrow> Inr s | _ \<Rightarrow> Inl TypeError)"

definition lower_char :: "char \<Rightarrow> char" where
  "lower_char c = (case map_of (zip ''ABCDEFGHIJKLMNOPQRSTUVWXYZ'' ''abcdefghijklmnopqrstuvwxyz'') c of
                     Some d \<Rightarrow> d | None \<Rightarrow> c)"

definition lower :: "string \<Rightarrow> string" where
  "lower s = map lower_char s"

text \<open>\<^verbatim>\<open>sub in s\<close> and \<^verbatim>\<open>s.endswith(e)\<close>.\<close>

definition contains :: "string \<Rightarrow> string \<Rightarrow> bool" where
  "contains sub s = sublist sub s"

definition endswith :: "string \<Rightarrow> string \<Rightarrow> bool" where
  "endswith s e = suffix e s"

definition cfg_get :: "config \<Rightarrow> string \<Rightarrow> string \<Rightarrow> error + pyval" where
  "cfg_get cfg sec key =
     (case cfg sec of
        None \<Rightarrow> Inl (KeyError sec)
      | Some d \<Rightarrow> (case d key of None \<Rightarrow> Inl (KeyError key) | Some v \<Rightarrow> Inr v))"


subsection \<open>The world, the trace and the environment\<close>

datatype level = DEBUG | INFO | WARNING | CRITICAL

text \<open>
  The payload of a log line or of a call: a string, an integer, an instant (microseconds),
  a configuration value, or the rendering of a value that only passes through the
  controller, named by the variable that holds it. The text of a log message is its tag
  followed by the payload.
\<close>

datatype arg = S string | I int | T int | P pyval | V string

datatype event =
    Log level string "arg list"
  | Print "arg list"
  | Leo string "arg list"
  | Cam string "arg list"
  | Dfn string "arg list"
  | Cc string "arg list"
  | Sm string "arg list"
  | Os string "arg list"
  | Sleep int
  | Popen "string list"
  | SubprocessCall "string list"
  | Poll
  | Terminate
  | Kill
  | SerClose
  | Join nat
  | Flush string
  | LoggingShutdown
  | Execvp "arg list"

text \<open>
  \<^verbatim>\<open>clock\<close> is \<^verbatim>\<open>datetime.datetime.now()\<close> in microseconds; only
  \<^verbatim>\<open>time.sleep\<close> moves it. \<^verbatim>\<open>ser_global\<close> is the binding of the name
  \<^verbatim>\<open>ser\<close> in the module's global namespace, \<open>None\<close> while the name is unbound.
\<close>

record world =
  clock :: int
  trace :: "event list"
  ser_global :: "nat option"

text \<open>
  What the collaborators answer. None of them is part of the script; each answer may
  depend on the world at the moment of the call (the instant and everything done so far).
\<close>

record env =
  load_config :: config
  make_data_path :: "world \<Rightarrow> string"
  get_mask :: "world \<Rightarrow> string"
  connect_to_leostick :: "world \<Rightarrow> nat"
  update_GPS_location :: "world \<Rightarrow> pyval \<times> pyval \<times> pyval \<times> pyval"
  generate_sun_and_moon :: "world \<Rightarrow> int \<times> int \<times> int \<times> int"
  timedelta_minutes :: "pyval \<Rightarrow> error + int"
  daylight :: bool
  get_ntp_data :: "world \<Rightarrow> string list"
  path_exists :: "world \<Rightarrow> string \<Rightarrow> bool"
  get_camera_shutterspeed :: "world \<Rightarrow> pyval"
  save_config_file :: "world \<Rightarrow> bool"
  read_cloud_status :: "world \<Rightarrow> int"
  isfile :: "world \<Rightarrow> string \<Rightarrow> bool"
  detect_disk_full :: "world \<Rightarrow> bool"
  listdir :: "world \<Rightarrow> string \<Rightarrow> string list"
  rename_RAW :: "world \<Rightarrow> string \<Rightarrow> string"
  rename_RAW_all :: "world \<Rightarrow> string list"
  make_thumb :: "world \<Rightarrow> string \<Rightarrow> string"
  get_latest_imagefile :: "world \<Rightarrow> string"
  popen :: "world \<Rightarrow> error + nat"
  poll :: "world \<Rightarrow> int option"
  terminate :: "world \<Rightarrow> error option"
  kill :: "world \<Rightarrow> error option"

subsection \<open>Sequencing with exceptions\<close>

type_synonym 'a act = "world \<Rightarrow> (error + 'a) \<times> world"

definition ret :: "'a \<Rightarrow> 'a act" where
  "ret x = (\<lambda>w. (Inr x, w))"

definition raise :: "error \<Rightarrow> 'a act" where
  "raise e = (\<lambda>w. (Inl e, w))"

definition bnd :: "'a act \<Rightarrow> ('a \<Rightarrow> 'b act) \<Rightarrow> 'b act" where
  "bnd m k = (\<lambda>w. case m w of (Inl e, w') \<Rightarrow> (Inl e, w') | (Inr x, w') \<Rightarrow> k x w')"

definition thn :: "'a act \<Rightarrow> 'b act \<Rightarrow> 'b act" where
  "thn m k = bnd m (\<lambda>_. k)"

definition of_res :: "error + 'a \<Rightarrow> 'a act" where
  "of_res r = (\<lambda>w. (r, w))"

definition emit :: "event \<Rightarrow> unit act" where
  "emit e = (\<lambda>w. (Inr (), w\<lparr>trace := trace w @ [e]\<rparr>))"

text \<open>A call to a collaborator: recorded in the trace, answered from the world before it.\<close>

definition call :: "event \<Rightarrow> (world \<Rightarrow> 'a) \<Rightarrow> 'a act" where
  "call e f = (\<lambda>w. (Inr (f w), w\<lparr>trace := trace w @ [e]\<rparr>))"

definition now :: "int act" where
  "now = (\<lambda>w. (Inr (clock w), w))"

definition seconds :: "int \<Rightarrow> int" where
  "seconds n = n * 1000000"

definition minutes :: "int \<Rightarrow> int" where
  "minutes n = n * 60000000"

text \<open>\<^verbatim>\<open>time.sleep(n)\<close>: Python 2.7 raises IOError for a negative duration.\<close>

definition sleep :: "int \<Rightarrow> unit act" where
  "sleep n = (if n < 0 then raise IOError
              else (\<lambda>w. (Inr (), w\<lparr>clock := clock w + seconds n, trace := trace w @ [Sleep n]\<rparr>)))"

fun seqs :: "unit act list \<Rightarrow> unit act" where
  "seqs [] = ret ()"
| "seqs (m # ms) = thn m (seqs ms)"

definition seqs_then :: "unit act list \<Rightarrow> 'a act \<Rightarrow> 'a act" where
  "seqs_then ms k = thn (seqs ms) k"

definition log :: "level \<Rightarrow> string \<Rightarrow> arg list \<Rightarrow> unit act" where
  "log lv tag args = emit (Log lv tag args)"

definition when_do :: "bool \<Rightarrow> unit act \<Rightarrow> unit act" where
  "when_do b m = (if b then m else ret ())"

subsection \<open>Module constants\<close>

definition CLOUDY :: int where "CLOUDY = 0"
definition CLEARING :: int where "CLEARING = 1"
definition CLEAR :: int where "CLEAR = 2"
definition JPG_MODE :: int where "JPG_MODE = 2"

subsection \<open>The acquisition procedures\<close>

text \<open>The rename pass, the thumbnail pass and the lookup of the latest file that both
  acquisition procedures end with.\<close>

definition high_acq :: "env \<Rightarrow> string \<Rightarrow> string \<Rightarrow> config \<Rightarrow> string act" where
  "high_acq E current_dir interval_time config_dict =
     thn (emit (Log INFO ''starting_high_acq_chunk'' [S interval_time, S current_dir]))
    (thn (emit (Leo ''shutter_on'' []))
    (bnd now (\<lambda>t.
     thn (emit (Print [S ''hr,'', T t]))
    (bnd (of_res (py_int (PStr interval_time))) (\<lambda>n.
     thn (sleep n)
    (thn (emit (Leo ''shutter_off'' []))
    (bnd (call (Os ''listdir'' [S current_dir]) (\<lambda>w. listdir E w current_dir)) (\<lambda>names.
     thn (emit (Log INFO ''finished_high_acq_chunk, img_count''
                 [I (int (length (filter (\<lambda>a. contains ''nef'' (lower a)) names)))]))
    (bnd (call (Dfn ''rename_RAW_all'' [S current_dir]) (rename_RAW_all E)) (\<lambda>renamed_images.
     thn (emit (Log DEBUG ''renamed_images'' (map S renamed_images)))
    (thn (emit (Dfn ''make_all_thumb'' (S current_dir # map S renamed_images)))
    (thn (emit (Log DEBUG ''thumbed_images'' [V ''thumbed_images'']))
    (bnd (call (Dfn ''get_latest_imagefile'' [S current_dir]) (get_latest_imagefile E)) (\<lambda>imgfile.
     thn (emit (Log INFO ''finished_rename_get_latest'' [S imgfile]))
    (ret imgfile)))))))))))))))"

definition low_acq :: "env \<Rightarrow> string \<Rightarrow> int \<Rightarrow> config \<Rightarrow> string act" where
  "low_acq E current_dir cloud_status config_dict =
     bnd (if cloud_status = CLOUDY then of_res (cfg_get config_dict ''clouds'' ''time_checking_cloudy'')
          else if cloud_status = CLEARING then of_res (cfg_get config_dict ''clouds'' ''time_checking_clearing'')
          else ret (PInt 30)) (\<lambda>sleep_time.
     bnd (of_res (str_concat sleep_time)) (\<lambda>sleep_text.
     thn (emit (Log INFO ''starting_low_acq'' [S sleep_text, S current_dir]))
    (bnd (of_res (py_int sleep_time)) (\<lambda>n.
     thn (sleep n)
    (thn (emit (Leo ''single_image'' []))
    (bnd (call (Dfn ''rename_RAW_all'' [S current_dir]) (rename_RAW_all E)) (\<lambda>renamed_images.
     thn (emit (Dfn ''make_all_thumb'' (S current_dir # map S renamed_images)))
    (bnd (call (Dfn ''get_latest_imagefile'' [S current_dir]) (get_latest_imagefile E)) (\<lambda>imgfile.
     thn (emit (Log DEBUG ''finished_low_acq'' [S imgfile]))
    (ret imgfile))))))))))"

subsection \<open>Fault shutdown and image handling\<close>

text \<open>
  \<^verbatim>\<open>clean_up_no_dl\<close> reads \<^verbatim>\<open>ser\<close> from the module's globals. The result is
  Python's \<^verbatim>\<open>False\<close>.
\<close>

definition clean_up_no_dl :: "nat list \<Rightarrow> bool act" where
  "clean_up_no_dl job_list =
     thn (emit (Leo ''shutter_off'' []))
    (thn (emit (Leo ''cond_off'' []))
    (thn (emit (Leo ''wait_for_camera_ready'' []))
    (thn (emit (Leo ''video_off'' []))
    (thn (sleep 10)
    (thn (emit (Leo ''camera_off'' []))
    (thn (seqs (map (\<lambda>job. emit (Join job)) job_list))
    (thn (\<lambda>w. case ser_global w of
                 None \<Rightarrow> raise (NameError ''ser'') w
               | Some h \<Rightarrow> emit SerClose w)
    (thn (emit (Flush ''stdout''))
    (thn (emit (Flush ''stderr''))
    (thn (emit LoggingShutdown)
    (ret False)))))))))))"

text \<open>
  The result of \<^verbatim>\<open>handle_new_image\<close> is \<open>None\<close> for Python's \<^verbatim>\<open>None\<close> (the
  plain \<^verbatim>\<open>return\<close>) and \<open>Some False\<close> for the value of \<^verbatim>\<open>clean_up_no_dl\<close>.
\<close>

definition write_last_image_file :: "string \<Rightarrow> pyval \<Rightarrow> unit act" where
  "write_last_image_file imgfile pointer =
     emit (Dfn ''write_last_image_file'' [S imgfile, P pointer])"

definition handle_new_image :: "env \<Rightarrow> string \<Rightarrow> nat list \<Rightarrow> string \<Rightarrow> config \<Rightarrow> bool option act" where
  "handle_new_image E imgfile job_list current_dir config_dict =
     bnd (call (Os ''path.isfile'' [S imgfile]) (\<lambda>w. isfile E w imgfile)) (\<lambda>exists.
     if exists then
       thn (emit (Log INFO ''handle-image_starting'' [S imgfile]))
      (bnd (call (Dfn ''detect_disk_full'' []) (detect_disk_full E)) (\<lambda>full.
       if full then
         thn (emit (Log CRITICAL ''disk-full_early-exit'' []))
        (bnd (clean_up_no_dl job_list) (\<lambda>r. ret (Some r)))
       else
         bnd (if contains ''cloudy_img'' imgfile \<or> contains ''clearing'' imgfile then
                thn (emit (Log INFO ''handle-image_cloudy_and_clearing'' [S imgfile]))
               (bnd (of_res (cfg_get config_dict ''internal'' ''last_img_status_file'')) (\<lambda>p.
                thn (write_last_image_file imgfile p)
               (ret imgfile)))
              else
                bnd (call (Dfn ''rename_RAW'' [S imgfile]) (\<lambda>w. rename_RAW E w imgfile)) (\<lambda>imgfile.
                if endswith (lower imgfile) ''.jpg'' then
                  thn (emit (Log INFO ''handle-image_jpg'' [S imgfile]))
                 (bnd (if \<not> contains ''thumb.jpg'' imgfile then
                         bnd (of_res (cfg_get config_dict ''internal'' ''clearing_quality'')) (\<lambda>q.
                         if q = PStr ''2'' then
                           bnd (call (Dfn ''make_thumb'' [S imgfile]) (\<lambda>w. make_thumb E w imgfile)) (\<lambda>imgfile.
                           thn (emit (Log INFO ''handle-image_thumb-jpg'' [S imgfile]))
                          (ret imgfile))
                         else ret imgfile)
                       else ret imgfile) (\<lambda>imgfile.
                  bnd (of_res (cfg_get config_dict ''internal'' ''last_img_status_file'')) (\<lambda>p.
                  thn (write_last_image_file imgfile p)
                 (thn (write_last_image_file imgfile (PStr ''/tmp/latest_img.tmp''))
                 (ret imgfile)))))
                else
                  thn (emit (Log INFO ''making_thumb_for_cloudy'' [S imgfile]))
                 (call (Dfn ''make_thumb'' [S imgfile]) (\<lambda>w. make_thumb E w imgfile)))) (\<lambda>imgfile.
         thn (emit (Os ''stat'' [S imgfile]))
        (thn (emit (Dfn ''exposure_time'' [S imgfile]))
        (thn (emit (Log INFO ''latest_image'' [S imgfile, V ''exposure_time'', V ''imgsize'']))
        (ret None))))))
     else
       thn (emit (Log INFO ''argh-imgfile_not_exist'' [S current_dir, S imgfile]))
      (ret None))"

subsection \<open>Loops that may not end\<close>

text \<open>
  The loops of the controller run until the clock passes a boundary, so they end only if
  time moves. They take fuel: \<open>None\<close> means that the fuel ran out before the loop ended.
\<close>

type_synonym 'a run = "world \<Rightarrow> ((error + 'a) \<times> world) option"

definition run_of :: "'a act \<Rightarrow> 'a run" where
  "run_of m = (\<lambda>w. Some (m w))"

definition rbnd :: "'a run \<Rightarrow> ('a \<Rightarrow> 'b run) \<Rightarrow> 'b run" where
  "rbnd m k = (\<lambda>w. case m w of
                      None \<Rightarrow> None
                    | Some (Inl e, w') \<Rightarrow> Some (Inl e, w')
                    | Some (Inr x, w') \<Rightarrow> k x w')"

subsection \<open>Phase boundaries\<close>

record boundaries =
  sunset :: int
  sunset_after_twilight :: int
  sunrise_before_twilight :: int
  sunrise :: int

text \<open>
  The arithmetic of the boundary computation, without the logging: the sun's instants with
  the leeway applied, the twilight margins of ten minutes, the dummy values of a test.
\<close>

definition apply_leeway :: "int \<Rightarrow> int \<Rightarrow> int \<Rightarrow> boundaries" where
  "apply_leeway leeway sunrise0 sunset0 =
     \<lparr>sunset = sunset0 + leeway,
      sunset_after_twilight = sunset0 + leeway + minutes 10,
      sunrise_before_twilight = sunrise0 - leeway - minutes 10,
      sunrise = sunrise0 - leeway\<rparr>"

definition test_boundaries :: "int \<Rightarrow> int \<Rightarrow> boundaries" where
  "test_boundaries test_time t =
     \<lparr>sunset = t + seconds 30,
      sunset_after_twilight = t + seconds 30,
      sunrise_before_twilight = t + seconds 30 + seconds test_time,
      sunrise = t + seconds 30 + seconds test_time\<rparr>"

text \<open>
  Lines 200 to 241 of the script, and again lines 267 to 310 after a new position fix.
  The leeway is looked up and converted for the sunset and once more for the sunrise, both
  before the test of \<^verbatim>\<open>test_time\<close>; the conversion depends on the value alone, so the
  model evaluates it once, where the first of the two stands.
\<close>

definition compute_boundaries :: "env \<Rightarrow> int \<Rightarrow> config \<Rightarrow> boundaries act" where
  "compute_boundaries E test_time config_dict =
     bnd (of_res (cfg_get config_dict ''station'' ''lon'')) (\<lambda>lon.
     bnd (of_res (cfg_get config_dict ''station'' ''lat'')) (\<lambda>lat.
     bnd (call (Sm ''generate_sun_and_moon'' [P lon, P lat]) (generate_sun_and_moon E))
       (\<lambda>(sunrise0, sunset0, moonrise, moonset).
     bnd (of_res (cfg_get config_dict ''internal'' ''sun_leeway'')) (\<lambda>leeway.
     bnd (of_res (timedelta_minutes E leeway)) (\<lambda>leeway.
     bnd (if test_time \<noteq> 0
          then bnd now (\<lambda>t. ret (test_boundaries test_time t))
          else ret (apply_leeway leeway sunrise0 sunset0)) (\<lambda>b.
     thn (log INFO ''sunset'' [T (sunset b)])
    (thn (log INFO ''sunset_after_twilight'' [T (sunset_after_twilight b)])
    (thn (log INFO ''sunrise_before_twilight'' [T (sunrise_before_twilight b)])
    (thn (log INFO ''sunrise'' [T (sunrise b)])
    (bnd now (\<lambda>t.
     thn (log INFO ''now'' [T t])
    (thn (log INFO ''UTCnow'' [V ''utcnow''])
    (thn (log INFO ''timezone'' [V ''timezone''])
    (thn (when_do (daylight E) (log INFO ''altzone'' [V ''altzone'']))
    (bnd (if sunset b \<ge> sunrise b
          then thn (log INFO ''late_start-forcing_immediate'' [])
              (bnd now (\<lambda>t. ret (b\<lparr>sunset := t + seconds 30\<rparr>)))
          else ret b) (\<lambda>b.
     thn (log DEBUG ''recalc_sunrise'' [V ''sunrise_epoch'', V ''sunrise_recalc_test''])
    (ret b)))))))))))))))))"

subsection \<open>Start of the session\<close>




subsection \<open>Waiting for sunset\<close>



subsection \<open>Switching the hardware on\<close>




subsection \<open>The tethered capture subprocess\<close>

text \<open>\<^verbatim>\<open>int(delta.total_seconds())\<close>: whole seconds, truncated toward zero.\<close>

definition whole_seconds :: "int \<Rightarrow> int" where
  "whole_seconds d = (if d \<ge> 0 then d div 1000000 else - ((- d) div 1000000))"

text \<open>
  \<^verbatim>\<open>try: ... subprocess.Popen(args) ... except subprocess.CalledProcessError\<close>: the
  launch is recorded, the environment says whether it succeeds, and the handler is
  entered for the one exception class that the \<^verbatim>\<open>except\<close> clause names. Any other
  exception leaves the \<^verbatim>\<open>try\<close> statement.
\<close>

definition try_popen :: "env \<Rightarrow> string list \<Rightarrow> (nat \<Rightarrow> 'a act) \<Rightarrow> 'a act \<Rightarrow> 'a act" where
  "try_popen E args body handler =
     (\<lambda>w. let w' = w\<lparr>trace := trace w @ [Popen args]\<rparr> in
           case popen E w of
             Inr pid \<Rightarrow> body pid w'
           | Inl e \<Rightarrow> if e = CalledProcessError then handler w' else (Inl e, w'))"

definition tether_reset :: "string \<Rightarrow> unit act" where
  "tether_reset who =
     bnd now (\<lambda>t.
     seqs [log WARNING ''argh-problem_starting_tether'' [V ''e''],
           emit (Print [S who, T t, V ''e'']),
           emit (SubprocessCall [''gphoto2'', ''--reset'']),
           log INFO ''gphoto_reset'' [V ''res'']])"

subsection \<open>The twilight phases\<close>

definition twilight_settings :: "config \<Rightarrow> unit act" where
  "twilight_settings config_dict =
     thn (emit (Cam ''camera_set_quality'' [I JPG_MODE]))
    (bnd (of_res (case config_dict ''camera'' of None \<Rightarrow> Inl (KeyError ''camera'') | Some d \<Rightarrow> Inr d)) (\<lambda>camera.
     bnd (of_res (if camera ''twilight_exposuretime'' \<noteq> None
                  then cfg_get config_dict ''camera'' ''twilight_exposuretime''
                  else cfg_get config_dict ''camera'' ''camera_exposuretime'')) (\<lambda>shutter.
     thn (emit (Cam ''camera_set_shutter'' [P shutter]))
    (bnd (of_res (if camera ''twilight_iso'' \<noteq> None
                  then cfg_get config_dict ''camera'' ''twilight_iso''
                  else cfg_get config_dict ''camera'' ''camera_iso'')) (\<lambda>iso.
     emit (Cam ''camera_set_iso'' [P iso]))))))"

definition twilight_tether :: "env \<Rightarrow> int \<Rightarrow> string \<Rightarrow> string \<Rightarrow> unit act" where
  "twilight_tether E bound started who =
     bnd now (\<lambda>t.
     try_popen E [''gphoto2'', ''--capture-tethered'',
                  str_of_int (whole_seconds (bound - t)) @ ''s'', ''--force-overwrite'']
       (\<lambda>pid. log INFO started [I (whole_seconds (bound - t))])
       (tether_reset who))"

fun twilight_loop :: "nat \<Rightarrow> env \<Rightarrow> int \<Rightarrow> string \<Rightarrow> string \<Rightarrow> config \<Rightarrow> nat list \<Rightarrow> unit run" where
  "twilight_loop 0 E bound current_dir interval_time config_dict job_list w =
     (if clock w < bound then None else Some (Inr (), w))"
| "twilight_loop (Suc n) E bound current_dir interval_time config_dict job_list w =
     (if clock w < bound then
        (case bnd (high_acq E current_dir interval_time config_dict)
                (\<lambda>imgfile. handle_new_image E imgfile job_list current_dir config_dict) w of
           (Inl e, w') \<Rightarrow> Some (Inl e, w')
         | (Inr r, w') \<Rightarrow> twilight_loop n E bound current_dir interval_time config_dict job_list w')
      else Some (Inr (), w))"

definition evening_twilight ::
  "nat \<Rightarrow> env \<Rightarrow> int \<Rightarrow> config \<Rightarrow> boundaries \<Rightarrow> string \<Rightarrow> string \<Rightarrow> nat list \<Rightarrow> unit run" where
  "evening_twilight fuel E test_time config_dict b current_dir interval_time job_list =
     (if test_time = 0 then
        rbnd (run_of
               (thn (log INFO ''twilight_evening_settings'' [])
               (thn (twilight_settings config_dict)
               (thn (log INFO ''twilight_evening_starting'' [])
               (twilight_tether E (sunset_after_twilight b)
                  ''evening_twilight_tether_starting'' ''evening_twilight_tether_err'')))))
          (\<lambda>_. twilight_loop fuel E (sunset_after_twilight b) current_dir interval_time config_dict job_list)
      else run_of (log DEBUG ''evening_twilight_not_called'' []))"

definition morning_twilight ::
  "nat \<Rightarrow> env \<Rightarrow> int \<Rightarrow> config \<Rightarrow> boundaries \<Rightarrow> string \<Rightarrow> string \<Rightarrow> nat list \<Rightarrow> unit run" where
  "morning_twilight fuel E test_time config_dict b current_dir interval_time job_list =
     (if test_time = 0 then
        rbnd (run_of
               (thn (log INFO ''twilight_morning_settings'' [])
               (thn (twilight_settings config_dict)
               (thn (log INFO ''twilight_morning_start'' [])
               (twilight_tether E (sunrise b)
                  ''morning_twilight_tether_starting'' ''morning_twilight_tether_err'')))))
          (\<lambda>_. twilight_loop fuel E (sunrise b) current_dir interval_time config_dict job_list)
      else run_of (log DEBUG ''morning_twilight_not_called'' []))"

subsection \<open>The night phase\<close>


text \<open>
  One pass of the loop of lines 475 to 506, after its test. The result is the image
  reference of the pass and the new value of \<^verbatim>\<open>cloud_status_internal\<close>.
\<close>

definition night_body ::
  "env \<Rightarrow> int \<Rightarrow> config \<Rightarrow> boundaries \<Rightarrow> string \<Rightarrow> string \<Rightarrow> int \<Rightarrow> (string \<times> int) act" where
  "night_body E test_time config_dict b current_dir interval_time cloud_status_internal =
     bnd (of_res (cfg_get config_dict ''internal'' ''cloud_status_file'')) (\<lambda>status_file.
     bnd (call (Cc ''read_cloud_status'' [P status_file]) (read_cloud_status E)) (\<lambda>cloud_status.
     bnd now (\<lambda>t.
     thn (emit (Print [T t, S ''sunrise'', T (sunrise b), I cloud_status]))
    (thn (log DEBUG ''cloud_status'' [I cloud_status, I cloud_status_internal])
    (bnd (if test_time \<noteq> 0
          then thn (log DEBUG ''testing_force_clear'' []) (ret CLEAR)
          else ret cloud_status) (\<lambda>cloud_status.
     bnd (if cloud_status = CLEAR then
            thn (when_do (cloud_status_internal \<noteq> CLEAR) (log INFO ''Gone_clear'' [I cloud_status]))
           (high_acq E current_dir interval_time config_dict)
          else if cloud_status = CLEARING then
            thn (when_do (cloud_status_internal \<noteq> CLEARING) (log INFO ''Gone_clearing'' [I cloud_status]))
           (low_acq E current_dir cloud_status config_dict)
          else if cloud_status = CLOUDY then
            thn (log INFO ''Gone_cloudy'' [I cloud_status])
           (low_acq E current_dir cloud_status config_dict)
          else
            thn (if cloud_status_internal = CLEAR \<or> cloud_status_internal = CLEARING
                    \<or> cloud_status_internal = CLOUDY
                 then log INFO ''Gone_undefined_cloud_status'' [I cloud_status]
                 else log INFO ''Still_undefined_cloud_status'' [I cloud_status])
           (high_acq E current_dir interval_time config_dict)) (\<lambda>imgfile.
     ret (imgfile, cloud_status))))))))"

fun night_loop ::
  "nat \<Rightarrow> env \<Rightarrow> int \<Rightarrow> config \<Rightarrow> boundaries \<Rightarrow> string \<Rightarrow> string \<Rightarrow> int \<Rightarrow> int run" where
  "night_loop 0 E test_time config_dict b current_dir interval_time cloud_status_internal w =
     (if clock w < sunrise_before_twilight b then None else Some (Inr cloud_status_internal, w))"
| "night_loop (Suc n) E test_time config_dict b current_dir interval_time cloud_status_internal w =
     (if clock w < sunrise_before_twilight b then
        (case night_body E test_time config_dict b current_dir interval_time cloud_status_internal w of
           (Inl e, w') \<Rightarrow> Some (Inl e, w')
         | (Inr (imgfile, cloud_status), w') \<Rightarrow>
             night_loop n E test_time config_dict b current_dir interval_time cloud_status w')
      else Some (Inr cloud_status_internal, w))"

subsection \<open>Teardown of the night tether\<close>

text \<open>A signal to the subprocess: recorded, and raising what the handle raises.\<close>

definition signal :: "event \<Rightarrow> (world \<Rightarrow> error option) \<Rightarrow> unit act" where
  "signal ev f =
     (\<lambda>w. case f w of
             None \<Rightarrow> (Inr (), w\<lparr>trace := trace w @ [ev]\<rparr>)
           | Some e \<Rightarrow> (Inl e, w\<lparr>trace := trace w @ [ev]\<rparr>))"

definition report_poll :: "env \<Rightarrow> nat \<Rightarrow> unit act" where
  "report_poll E pid =
     bnd (call Poll (poll E)) (\<lambda>r.
     thn (emit (Print [case r of None \<Rightarrow> S ''None'' | Some c \<Rightarrow> I c]))
    (bnd (call Poll (poll E)) (\<lambda>r.
     if r = None then log DEBUG ''Tether_not_killed'' [I (int pid)]
     else log DEBUG ''Tether_killed'' [I (int pid)])))"

text \<open>Lines 508 to 524.\<close>

definition tether_teardown :: "env \<Rightarrow> nat option \<Rightarrow> unit act" where
  "tether_teardown E tether =
     thn (sleep 5)
    (case tether of
       None \<Rightarrow> raise (UnboundLocalError ''tether'')
     | Some pid \<Rightarrow>
         thn (report_poll E pid)
        (thn (signal Terminate (terminate E))
        (thn (signal Kill (kill E))
        (report_poll E pid))))"

subsection \<open>Sunrise\<close>





subsection \<open>The whole night\<close>


subsection \<open>Observations on traces\<close>

text \<open>
  What the properties look for in a trace: the first action of the image-handling
  procedure, the single exposure of the low-rate acquisition, an update of a pointer file,
  a command to the microcontroller, the lines and triggers that tell the acquisition mode
  of a pass, the log line of the forced start.
\<close>

fun handling_started :: "event \<Rightarrow> bool" where
  "handling_started (Os name args) = (name = ''path.isfile'')"
| "handling_started _ = False"

fun low_rate_trigger :: "event \<Rightarrow> bool" where
  "low_rate_trigger (Leo name args) = (name = ''single_image'')"
| "low_rate_trigger _ = False"

fun pointer_update :: "event \<Rightarrow> bool" where
  "pointer_update (Dfn name args) = (name = ''write_last_image_file'')"
| "pointer_update _ = False"

fun hardware :: "event \<Rightarrow> bool" where
  "hardware (Leo name args) = True"
| "hardware _ = False"

fun mode_event :: "event \<Rightarrow> bool" where
  "mode_event (Log lv tag args) =
     (tag \<in> set [''Gone_clear'', ''Gone_clearing'', ''Gone_cloudy'',
                 ''Gone_undefined_cloud_status'', ''Still_undefined_cloud_status''])"
| "mode_event (Leo name args) = (name = ''shutter_on'' \<or> name = ''single_image'')"
| "mode_event _ = False"

fun late_start :: "event \<Rightarrow> bool" where
  "late_start (Log lv tag args) = (tag = ''late_start-forcing_immediate'')"
| "late_start _ = False"


text \<open>An action keeps \<open>p\<close> when it adds no event that satisfies \<open>p\<close> to the trace.\<close>

definition keeps :: "(event \<Rightarrow> bool) \<Rightarrow> 'a act \<Rightarrow> bool" where
  "keeps p m = (\<forall>w. filter p (trace (snd (m w))) = filter p (trace w))"



subsection \<open>A station to run the model on\<close>

text \<open>
  A configuration and an environment with fixed answers, on which the controller can be
  evaluated: a station whose camera stores \<^verbatim>\<open>a.jpg\<close>, with room on the disk,
  a clear sky and a tether that starts and is still running when polled. Its leeway
  values are whole minutes; any other text is no number there.
\<close>

definition station_config :: config where
  "station_config = map_of
     [(''internal'', map_of
         [(''data_directory'', PStr ''/data0''),
          (''sun_leeway'', PStr ''0''),
          (''cloudy_img_file'', PStr ''/tmp/cloudy_img.jpg''),
          (''last_img_status_file'', PStr ''/tmp/last_img.txt''),
          (''cloud_status_file'', PStr ''/tmp/cloud_status.txt''),
          (''clearing_quality'', PStr ''2'')]),
      (''station'', map_of
         [(''lon'', PStr ''115.8''),
          (''lat'', PStr ''-32.0''),
          (''altitude'', PStr ''30''),
          (''gps_lock'', PStr ''N''),
          (''location'', PStr ''perth'')]),
      (''camera'', map_of
         [(''exp_mode'', PStr ''BULB''),
          (''video_enabled'', PStr ''0''),
          (''camera_fstop'', PStr ''4''),
          (''camera_exposuretime'', PStr ''25''),
          (''camera_iso'', PStr ''3200'')]),
      (''clouds'', map_of
         [(''time_checking_clear'', PStr ''60''),
          (''time_checking_cloudy'', PStr ''120''),
          (''time_checking_clearing'', PStr ''90'')]),
      (''event_detect'', map_of [(''enabled'', PStr ''0'')])]"

definition station_env :: env where
  "station_env =
     \<lparr>load_config = station_config,
      make_data_path = (\<lambda>w. ''/data0/latest''),
      get_mask = (\<lambda>w. ''/data0/mask.jpg''),
      connect_to_leostick = (\<lambda>w. 1),
      update_GPS_location = (\<lambda>w. (PStr ''115.8'', PStr ''-32.0'', PStr ''30'', PStr ''N'')),
      generate_sun_and_moon = (\<lambda>w. (seconds 43200, seconds 3600, 0, 0)),
      timedelta_minutes = (\<lambda>v. case py_int v of Inl e \<Rightarrow> Inl ValueError | Inr n \<Rightarrow> Inr (minutes n)),
      daylight = False,
      get_ntp_data = (\<lambda>w. []),
      path_exists = (\<lambda>w p. False),
      get_camera_shutterspeed = (\<lambda>w. PStr ''25''),
      save_config_file = (\<lambda>w. True),
      read_cloud_status = (\<lambda>w. CLEAR),
      isfile = (\<lambda>w p. True),
      detect_disk_full = (\<lambda>w. False),
      listdir = (\<lambda>w d. []),
      rename_RAW = (\<lambda>w f. f),
      rename_RAW_all = (\<lambda>w. []),
      make_thumb = (\<lambda>w f. f @ ''.thumb.jpg''),
      get_latest_imagefile = (\<lambda>w. ''a.jpg''),
      popen = (\<lambda>w. Inr 4242),
      poll = (\<lambda>w. None),
      terminate = (\<lambda>w. None),
      kill = (\<lambda>w. None)\<rparr>"

text \<open>A cloud monitor that reads Clear, Clearing, Cloudy, an undefined status and Clear
  again as the night goes on.\<close>

definition five_readings :: "world \<Rightarrow> int" where
  "five_readings w =
     (if clock w < seconds 60 then CLEAR
      else if clock w < seconds 150 then CLEARING
      else if clock w < seconds 270 then CLOUDY
      else if clock w < seconds 330 then 7
      else CLEAR)"

definition boot :: world where
  "boot = \<lparr>clock = 0, trace = [], ser_global = None\<rparr>"

section \<open>Properties\<close>

subsection \<open>Unfolding the sequencing, and \<^verbatim>\<open>int(str(n))\<close>\<close>

lemmas act_defs = ret_def raise_def bnd_def thn_def of_res_def emit_def call_def now_def
  sleep_def log_def when_do_def seqs_then_def

text \<open>The same equations applied to a world, for evaluation step by step.\<close>

lemma ret_apply: "ret x w = (Inr x, w)" by (simp add: ret_def)
lemma raise_apply: "raise e w = (Inl e, w)" by (simp add: raise_def)
lemma bnd_apply: "bnd m k w = (case m w of (Inl e, w') \<Rightarrow> (Inl e, w') | (Inr x, w') \<Rightarrow> k x w')"
  by (simp add: bnd_def)
lemma thn_apply: "thn m k w = (case m w of (Inl e, w') \<Rightarrow> (Inl e, w') | (Inr x, w') \<Rightarrow> k w')"
  by (simp add: thn_def bnd_def)
lemma of_res_apply: "of_res r w = (r, w)" by (simp add: of_res_def)
lemma emit_apply: "emit e w = (Inr (), w\<lparr>trace := trace w @ [e]\<rparr>)" by (simp add: emit_def)
lemma log_apply: "log lv tag args w = (Inr (), w\<lparr>trace := trace w @ [Log lv tag args]\<rparr>)"
  by (simp add: log_def emit_def)
lemma call_apply: "call e f w = (Inr (f w), w\<lparr>trace := trace w @ [e]\<rparr>)" by (simp add: call_def)
lemma now_apply: "now w = (Inr (clock w), w)" by (simp add: now_def)
lemma sleep_apply:
  "sleep n w = (if n < 0 then (Inl IOError, w)
                else (Inr (), w\<lparr>clock := clock w + seconds n, trace := trace w @ [Sleep n]\<rparr>))"
  by (simp add: sleep_def raise_def)
lemma seqs_then_apply:
  "seqs_then ms k w = (case seqs ms w of (Inl e, w') \<Rightarrow> (Inl e, w') | (Inr x, w') \<Rightarrow> k w')"
  by (simp add: seqs_then_def thn_apply)
lemma rbnd_apply:
  "rbnd m k w = (case m w of None \<Rightarrow> None | Some (Inl e, w') \<Rightarrow> Some (Inl e, w')
                 | Some (Inr x, w') \<Rightarrow> k x w')"
  by (simp add: rbnd_def)
lemma run_of_apply: "run_of m w = Some (m w)" by (simp add: run_of_def)

lemmas act_apply = ret_apply raise_apply bnd_apply thn_apply of_res_apply emit_apply log_apply
  call_apply now_apply sleep_apply seqs_then_apply rbnd_apply run_of_apply when_do_def

lemmas night_eval = night_body_def high_acq_def low_acq_def act_apply station_env_def station_config_def
        boot_def CLEAR_def CLEARING_def CLOUDY_def seconds_def cfg_get_def str_concat_def
        py_int_def int_of_str_def strip_def is_space_def parse_nat_def is_digit_def digit_val_def

lemmas weak_congs = prod.case_cong_weak sum.case_cong_weak option.case_cong_weak if_weak_cong



lemma digit_char_props:
  assumes "d < 10"
  shows "is_digit (digit_char d) \<and> digit_val (digit_char d) = d"
proof -
  from assms have "d \<in> {0,1,2,3,4,5,6,7,8,9}" by auto
  then show ?thesis
    by (auto simp: is_digit_def digit_val_def digit_char_def)
qed

lemma is_digit_plain: "is_digit c \<Longrightarrow> \<not> is_space c \<and> c \<noteq> CHR ''-'' \<and> c \<noteq> CHR ''+''"
  by (auto simp: is_digit_def is_space_def)

lemma digits_ok:
  "digits n \<noteq> [] \<and> list_all is_digit (digits n)
    \<and> foldl (\<lambda>acc c. acc * 10 + digit_val c) 0 (digits n) = n"
proof (induction n rule: digits.induct)
  case (1 n)
  show ?case
  proof (cases "n < 10")
    case True
    then show ?thesis using digit_char_props [of n] by (simp add: digits.simps [of n])
  next
    case False
    have m: "n mod 10 < 10" by simp
    from False 1 digit_char_props [OF m] show ?thesis
      by (simp add: digits.simps [of n])
  qed
qed

lemma no_space_strip:
  assumes "\<forall>c\<in>set s. \<not> is_space c"
  shows "strip s = s"
proof -
  from assms have 1: "dropWhile is_space s = s" by (cases s) auto
  from assms have "\<forall>c\<in>set (rev s). \<not> is_space c" by simp
  then have 2: "dropWhile is_space (rev s) = rev s" by (cases "rev s") auto
  show ?thesis by (simp add: strip_def 1 2)
qed

lemma digits_no_space: "\<forall>c\<in>set (digits n). \<not> is_space c"
  using digits_ok [of n] is_digit_plain by (auto simp: list_all_iff)

lemma parse_digits: "parse_nat (digits n) = Some n"
  using digits_ok [of n] by (simp add: parse_nat_def)

lemma int_of_str_digits: "int_of_str (digits n) = Some (int n)"
proof -
  obtain c cs where d: "digits n = c # cs" using digits_ok [of n] by (cases "digits n") auto
  have "list_all is_digit (digits n)" using digits_ok by simp
  then have "is_digit c" using d by simp
  then have "c \<noteq> CHR ''-''" "c \<noteq> CHR ''+''" using is_digit_plain by auto
  moreover have "strip (digits n) = c # cs"
    using no_space_strip [OF digits_no_space [of n]] d by simp
  moreover have "parse_nat (c # cs) = Some n" using parse_digits [of n] d by simp
  ultimately show ?thesis by (simp add: int_of_str_def)
qed

lemma int_of_str_of_int: "int_of_str (str_of_int i) = Some i"
proof (cases "i < 0")
  case False
  then show ?thesis using int_of_str_digits [of "nat i"] by (simp add: str_of_int_def)
next
  case True
  have "\<forall>c\<in>set (CHR ''-'' # digits (nat (- i))). \<not> is_space c"
    using digits_no_space [of "nat (- i)"] by (simp add: is_space_def)
  then have "strip (CHR ''-'' # digits (nat (- i))) = CHR ''-'' # digits (nat (- i))"
    by (rule no_space_strip)
  then show ?thesis using True parse_digits [of "nat (- i)"]
    by (simp add: str_of_int_def int_of_str_def)
qed

lemma py_int_str_of_int: "py_int (PStr (str_of_int i)) = Inr i"
  by (simp add: py_int_def int_of_str_of_int)

lemma seqs_joins:
  "seqs (map (\<lambda>job. emit (Join job)) job_list) w = (Inr (), w\<lparr>trace := trace w @ map Join job_list\<rparr>)"
  by (induction job_list arbitrary: w) (simp_all add: act_defs)

lemma seqs_joins_raw:
  "seqs (map (\<lambda>job w. (Inr (), w\<lparr>trace := trace w @ [Join job]\<rparr>)) job_list) w =
     (Inr (), w\<lparr>trace := trace w @ map Join job_list\<rparr>)"
  using seqs_joins [of job_list w] by (simp add: emit_def)

subsection \<open>Actions that leave a kind of event out of the trace\<close>

lemma keeps_ret: "keeps p (ret x)" by (simp add: keeps_def ret_def)
lemma keeps_raise: "keeps p (raise e)" by (simp add: keeps_def raise_def)
lemma keeps_of_res: "keeps p (of_res r)" by (simp add: keeps_def of_res_def)
lemma keeps_now: "keeps p now" by (simp add: keeps_def now_def)
lemma keeps_emit: "\<not> p e \<Longrightarrow> keeps p (emit e)" by (simp add: keeps_def emit_def)
lemma keeps_log: "\<not> p (Log lv tag args) \<Longrightarrow> keeps p (log lv tag args)" by (simp add: keeps_def emit_def log_def)
lemma keeps_call: "\<not> p e \<Longrightarrow> keeps p (call e f)" by (simp add: keeps_def call_def)
lemma keeps_sleep: "\<not> p (Sleep n) \<Longrightarrow> keeps p (sleep n)" by (simp add: keeps_def sleep_def raise_def)
lemma keeps_bnd: "keeps p m \<Longrightarrow> (\<And>x. keeps p (k x)) \<Longrightarrow> keeps p (bnd m k)"
  unfolding keeps_def bnd_def
proof
  fix w
  assume m: "\<forall>w. filter p (trace (snd (m w))) = filter p (trace w)"
    and k: "\<And>x. \<forall>w. filter p (trace (snd (k x w))) = filter p (trace w)"
  obtain r w' where mw: "m w = (r, w')" by (cases "m w")
  from m mw have 1: "filter p (trace w') = filter p (trace w)" by (metis snd_conv)
  show "filter p (trace (snd (case m w of (Inl e, w') \<Rightarrow> (Inl e, w') | (Inr x, w') \<Rightarrow> k x w'))) = filter p (trace w)"
    using mw 1 k by (cases r) auto
qed
lemma keeps_thn: "keeps p m \<Longrightarrow> keeps p k \<Longrightarrow> keeps p (thn m k)"
  by (simp add: thn_def keeps_bnd)
lemma keeps_if: "keeps p a \<Longrightarrow> keeps p b \<Longrightarrow> keeps p (if c then a else b)" by simp
lemma keeps_when_do: "keeps p m \<Longrightarrow> keeps p (when_do c m)" by (simp add: when_do_def keeps_ret)
lemma keeps_seqs: "(\<And>m. m \<in> set ms \<Longrightarrow> keeps p m) \<Longrightarrow> keeps p (seqs ms)"
  by (induction ms) (simp_all add: keeps_ret keeps_thn)

lemmas keeps_intros = keeps_ret keeps_raise keeps_of_res keeps_now keeps_emit keeps_log keeps_call
  keeps_sleep keeps_bnd keeps_thn keeps_if keeps_when_do

lemma keeps_high_acq: "\<not> p (Leo ''shutter_on'' []) \<Longrightarrow> \<not> p (Leo ''shutter_off'' []) \<Longrightarrow>
   (\<And>a. \<not> p (Print a)) \<Longrightarrow> (\<And>l t a. \<not> p (Log l t a)) \<Longrightarrow> (\<And>n. \<not> p (Sleep n)) \<Longrightarrow>
   (\<And>a. \<not> p (Os ''listdir'' a)) \<Longrightarrow> (\<And>n a. \<not> p (Dfn n a)) \<Longrightarrow> keeps p (high_acq E cd it cfg)"
  unfolding high_acq_def
  by (intro keeps_intros) simp_all

lemma keeps_low_acq: "\<not> p (Leo ''single_image'' []) \<Longrightarrow>
   (\<And>l t a. \<not> p (Log l t a)) \<Longrightarrow> (\<And>n. \<not> p (Sleep n)) \<Longrightarrow>
   (\<And>n a. \<not> p (Dfn n a)) \<Longrightarrow> keeps p (low_acq E cd st cfg)"
  unfolding low_acq_def
  by (intro keeps_intros) simp_all

lemma keeps_night_body_handling: "keeps handling_started (night_body E test_time cfg b cd it csi)"
  unfolding night_body_def
  by (intro keeps_intros keeps_high_acq keeps_low_acq) simp_all


lemma night_loop_keeps:
  assumes "\<And>csi. keeps p (night_body E tt cfg b cd it csi)"
  shows "night_loop fuel E tt cfg b cd it csi w = Some (r, w') \<Longrightarrow> filter p (trace w') = filter p (trace w)"
proof (induction fuel arbitrary: csi w)
  case 0
  then show ?case by (simp split: if_splits)
next
  case (Suc n)
  show ?case
  proof (cases "clock w < sunrise_before_twilight b")
    case False
    with Suc.prems show ?thesis by simp
  next
    case True
    obtain r1 w1 where nb: "night_body E tt cfg b cd it csi w = (r1, w1)"
      by (cases "night_body E tt cfg b cd it csi w")
    from assms [of csi] nb have k: "filter p (trace w1) = filter p (trace w)"
      by (metis keeps_def snd_conv)
    show ?thesis
    proof (cases r1)
      case (Inl e)
      with Suc.prems True nb k show ?thesis by simp
    next
      case (Inr x)
      obtain img cs where x: "x = (img, cs)" by (cases x)
      from Suc.prems True nb Inr x have "night_loop n E tt cfg b cd it cs w1 = Some (r, w')" by simp
      from Suc.IH [OF this] k show ?thesis by simp
    qed
  qed
qed

lemma bnd_thn_ret: "bnd (thn m (ret x)) k = thn m (k x)"
  by (auto simp add: act_defs fun_eq_iff split: prod.splits sum.splits)

lemma bnd_ret: "bnd (ret x) k = k x"
  by (simp add: act_defs)

lemma night_body_test:
  "test_time \<noteq> 0 \<Longrightarrow>
   night_body E test_time cfg b cd it csi =
     bnd (of_res (cfg_get cfg ''internal'' ''cloud_status_file'')) (\<lambda>status_file.
     bnd (call (Cc ''read_cloud_status'' [P status_file]) (read_cloud_status E)) (\<lambda>cloud_status.
     bnd now (\<lambda>t.
     thn (emit (Print [T t, S ''sunrise'', T (sunrise b), I cloud_status]))
    (thn (log DEBUG ''cloud_status'' [I cloud_status, I csi])
    (thn (log DEBUG ''testing_force_clear'' [])
    (bnd (thn (when_do (csi \<noteq> CLEAR) (log INFO ''Gone_clear'' [I CLEAR]))
           (high_acq E cd it cfg)) (\<lambda>imgfile.
     ret (imgfile, CLEAR))))))))"
  by (simp add: night_body_def bnd_thn_ret)

lemma keeps_night_body_test:
  assumes "test_time \<noteq> 0"
  shows "keeps low_rate_trigger (night_body E test_time cfg b cd it csi)"
  unfolding night_body_test [OF assms]
  by (intro keeps_intros keeps_high_acq) simp_all

subsection \<open>Fault shutdown on a full disk\<close>

text \<open>
  C1. Handling an image whose path exists while the disk is full. The claim is that the
  fault shutdown disables the shutter trigger and the condensation fan, powers the camera
  off, closes the hardware channel and returns a failure indicator. The code does the first
  three, once each, and then reads \<^verbatim>\<open>ser\<close> from the module's globals, where the name
  was never bound (\<^verbatim>\<open>main_function\<close> assigns its own local \<^verbatim>\<open>ser\<close>): the call
  ends in a NameError, the channel is not closed and nothing is returned.
\<close>

theorem handle_new_image_disk_full:
  assumes "isfile E w imgfile"
    and "detect_disk_full E (w\<lparr>trace := trace w @
           [Os ''path.isfile'' [S imgfile], Log INFO ''handle-image_starting'' [S imgfile]]\<rparr>)"
    and "ser_global w = None"
  shows "handle_new_image E imgfile job_list current_dir config_dict w =
           (Inl (NameError ''ser''),
            w\<lparr>clock := clock w + seconds 10,
              trace := trace w @
                [Os ''path.isfile'' [S imgfile],
                 Log INFO ''handle-image_starting'' [S imgfile],
                 Dfn ''detect_disk_full'' [],
                 Log CRITICAL ''disk-full_early-exit'' [],
                 Leo ''shutter_off'' [],
                 Leo ''cond_off'' [],
                 Leo ''wait_for_camera_ready'' [],
                 Leo ''video_off'' [],
                 Sleep 10,
                 Leo ''camera_off'' []] @ map Join job_list\<rparr>)"
  using assms
  by (simp add: handle_new_image_def clean_up_no_dl_def act_defs seqs_joins_raw)

theorem handle_new_image_disk_full_witness:
  "handle_new_image (station_env\<lparr>detect_disk_full := (\<lambda>w. True)\<rparr>) ''a.jpg'' []
       ''/data0/latest'' station_config boot =
     (Inl (NameError ''ser''),
      \<lparr>clock = 10000000,
       trace =
         [Os ''path.isfile'' [S ''a.jpg''],
          Log INFO ''handle-image_starting'' [S ''a.jpg''],
          Dfn ''detect_disk_full'' [],
          Log CRITICAL ''disk-full_early-exit'' [],
          Leo ''shutter_off'' [],
          Leo ''cond_off'' [],
          Leo ''wait_for_camera_ready'' [],
          Leo ''video_off'' [],
          Sleep 10,
          Leo ''camera_off'' []],
       ser_global = None\<rparr>)"
  using handle_new_image_disk_full
    [of "station_env\<lparr>detect_disk_full := (\<lambda>w. True)\<rparr>" boot "''a.jpg''" "[]"
        "''/data0/latest''" station_config]
  by (simp add: station_env_def boot_def seconds_def)

text \<open>
  In a twilight loop the fault shutdown is not followed by another pass: the NameError
  leaves the loop. The hardware calls of the pass are the trigger window of the high-rate
  acquisition and the five calls of the shutdown.
\<close>

lemma high_acq_frame:
  "\<exists>latest w'. high_acq E current_dir (str_of_int (int n)) config_dict w = (Inr latest, w')
      \<and> ser_global w' = ser_global w
      \<and> filter hardware (trace w') =
          filter hardware (trace w) @ [Leo ''shutter_on'' [], Leo ''shutter_off'' []]"
  by (simp add: high_acq_def act_defs py_int_str_of_int)

lemma fault_shutdown_frame:
  assumes "isfile E w imgfile"
    and "detect_disk_full E (w\<lparr>trace := trace w @
           [Os ''path.isfile'' [S imgfile], Log INFO ''handle-image_starting'' [S imgfile]]\<rparr>)"
    and "ser_global w = None"
  shows "\<exists>w'. handle_new_image E imgfile job_list current_dir config_dict w =
                (Inl (NameError ''ser''), w')
      \<and> filter hardware (trace w') = filter hardware (trace w) @
            [Leo ''shutter_off'' [], Leo ''cond_off'' [], Leo ''wait_for_camera_ready'' [],
             Leo ''video_off'' [], Leo ''camera_off'' []]"
  using assms
  by (simp add: handle_new_image_def clean_up_no_dl_def act_defs seqs_joins_raw)

lemma twilight_loop_fault:
  assumes "clock w < bound" and "ser_global w = None"
    and "\<And>w p. isfile E w p" and "\<And>w. detect_disk_full E w"
  shows "\<exists>w'. twilight_loop (Suc fuel) E bound current_dir (str_of_int (int n)) config_dict job_list w
                = Some (Inl (NameError ''ser''), w')
              \<and> filter hardware (trace w') = filter hardware (trace w) @
                    [Leo ''shutter_on'' [], Leo ''shutter_off'' [], Leo ''shutter_off'' [],
                     Leo ''cond_off'' [], Leo ''wait_for_camera_ready'' [], Leo ''video_off'' [],
                     Leo ''camera_off'' []]"
proof -
  obtain latest w1 where
    h: "high_acq E current_dir (str_of_int (int n)) config_dict w = (Inr latest, w1)"
    and s1: "ser_global w1 = ser_global w"
    and t1: "filter hardware (trace w1) =
             filter hardware (trace w) @ [Leo ''shutter_on'' [], Leo ''shutter_off'' []]"
    using high_acq_frame [of E current_dir n config_dict w] by blast
  from s1 assms(2) have n1: "ser_global w1 = None" by simp
  obtain w2 where
    f: "handle_new_image E latest job_list current_dir config_dict w1 = (Inl (NameError ''ser''), w2)"
    and t2: "filter hardware (trace w2) = filter hardware (trace w1) @
            [Leo ''shutter_off'' [], Leo ''cond_off'' [], Leo ''wait_for_camera_ready'' [],
             Leo ''video_off'' [], Leo ''camera_off'' []]"
    using fault_shutdown_frame [OF assms(3) assms(4) n1, of latest job_list current_dir config_dict]
    by blast
  from assms(1) h f
  have "twilight_loop (Suc fuel) E bound current_dir (str_of_int (int n)) config_dict job_list w
          = Some (Inl (NameError ''ser''), w2)"
    by (simp add: bnd_def)
  with t1 t2 show ?thesis by simp
qed

subsection \<open>High-rate acquisition\<close>


subsection \<open>The pointer to the last image\<close>

text \<open>
  C7. The claim is that the pointer to the last image is updated for every existing image
  without a cloud marker, whether its renamed name is a JPEG or a raw name, and that a
  missing path is logged and skipped without an error. Past the disk check the code does
  both for a missing path and for a name that ends in \<^verbatim>\<open>.jpg\<close> (the configuration
  holding the two keys that are read on the way). For every other name, a raw image, it
  makes the thumbnail and returns without any update of a pointer file: the call of
  \<^verbatim>\<open>write_last_image_file\<close> that the marker branch and the JPEG branch make is
  missing in the raw branch.
\<close>

theorem handle_new_image_pointer:
  "(\<not> isfile E w imgfile \<longrightarrow>
      handle_new_image E imgfile job_list current_dir config_dict w =
        (Inr None, w\<lparr>trace := trace w @
           [Os ''path.isfile'' [S imgfile],
            Log INFO ''argh-imgfile_not_exist'' [S current_dir, S imgfile]]\<rparr>))
   \<and> (isfile E w imgfile
        \<and> \<not> detect_disk_full E (w\<lparr>trace := trace w @
              [Os ''path.isfile'' [S imgfile], Log INFO ''handle-image_starting'' [S imgfile]]\<rparr>)
        \<and> \<not> contains ''cloudy_img'' imgfile \<and> \<not> contains ''clearing'' imgfile
        \<and> endswith (lower (rename_RAW E (w\<lparr>trace := trace w @
              [Os ''path.isfile'' [S imgfile], Log INFO ''handle-image_starting'' [S imgfile],
               Dfn ''detect_disk_full'' []]\<rparr>) imgfile)) ''.jpg''
        \<and> cfg_get config_dict ''internal'' ''last_img_status_file'' = Inr p
        \<and> cfg_get config_dict ''internal'' ''clearing_quality'' = Inr q \<longrightarrow>
      (\<exists>img w'. handle_new_image E imgfile job_list current_dir config_dict w = (Inr None, w')
         \<and> Dfn ''write_last_image_file'' [S img, P p] \<in> set (trace w')))
   \<and> (isfile E w imgfile
        \<and> \<not> detect_disk_full E (w\<lparr>trace := trace w @
              [Os ''path.isfile'' [S imgfile], Log INFO ''handle-image_starting'' [S imgfile]]\<rparr>)
        \<and> \<not> contains ''cloudy_img'' imgfile \<and> \<not> contains ''clearing'' imgfile
        \<and> \<not> endswith (lower (rename_RAW E (w\<lparr>trace := trace w @
              [Os ''path.isfile'' [S imgfile], Log INFO ''handle-image_starting'' [S imgfile],
               Dfn ''detect_disk_full'' []]\<rparr>) imgfile)) ''.jpg'' \<longrightarrow>
      (\<exists>w'. handle_new_image E imgfile job_list current_dir config_dict w = (Inr None, w')
         \<and> filter pointer_update (trace w') = filter pointer_update (trace w)))"
proof (intro conjI)
  show "\<not> isfile E w imgfile \<longrightarrow>
      handle_new_image E imgfile job_list current_dir config_dict w =
        (Inr None, w\<lparr>trace := trace w @
           [Os ''path.isfile'' [S imgfile],
            Log INFO ''argh-imgfile_not_exist'' [S current_dir, S imgfile]]\<rparr>)"
    by (simp add: handle_new_image_def act_defs)
  show "isfile E w imgfile
        \<and> \<not> detect_disk_full E (w\<lparr>trace := trace w @
              [Os ''path.isfile'' [S imgfile], Log INFO ''handle-image_starting'' [S imgfile]]\<rparr>)
        \<and> \<not> contains ''cloudy_img'' imgfile \<and> \<not> contains ''clearing'' imgfile
        \<and> endswith (lower (rename_RAW E (w\<lparr>trace := trace w @
              [Os ''path.isfile'' [S imgfile], Log INFO ''handle-image_starting'' [S imgfile],
               Dfn ''detect_disk_full'' []]\<rparr>) imgfile)) ''.jpg''
        \<and> cfg_get config_dict ''internal'' ''last_img_status_file'' = Inr p
        \<and> cfg_get config_dict ''internal'' ''clearing_quality'' = Inr q \<longrightarrow>
      (\<exists>img w'. handle_new_image E imgfile job_list current_dir config_dict w = (Inr None, w')
         \<and> Dfn ''write_last_image_file'' [S img, P p] \<in> set (trace w'))"
    by (auto simp add: handle_new_image_def write_last_image_file_def act_defs)
  show "isfile E w imgfile
        \<and> \<not> detect_disk_full E (w\<lparr>trace := trace w @
              [Os ''path.isfile'' [S imgfile], Log INFO ''handle-image_starting'' [S imgfile]]\<rparr>)
        \<and> \<not> contains ''cloudy_img'' imgfile \<and> \<not> contains ''clearing'' imgfile
        \<and> \<not> endswith (lower (rename_RAW E (w\<lparr>trace := trace w @
              [Os ''path.isfile'' [S imgfile], Log INFO ''handle-image_starting'' [S imgfile],
               Dfn ''detect_disk_full'' []]\<rparr>) imgfile)) ''.jpg'' \<longrightarrow>
      (\<exists>w'. handle_new_image E imgfile job_list current_dir config_dict w = (Inr None, w')
         \<and> filter pointer_update (trace w') = filter pointer_update (trace w))"
    by (simp add: handle_new_image_def act_defs)
qed

theorem handle_new_image_pointer_witness:
  "handle_new_image (station_env\<lparr>isfile := (\<lambda>w p. False)\<rparr>) ''a.jpg'' [] ''/data0/latest''
       station_config boot =
     (Inr None, boot\<lparr>trace :=
        [Os ''path.isfile'' [S ''a.jpg''],
         Log INFO ''argh-imgfile_not_exist'' [S ''/data0/latest'', S ''a.jpg'']]\<rparr>)
   \<and> (\<exists>img w'. handle_new_image station_env ''a.jpg'' [] ''/data0/latest'' station_config boot
                   = (Inr None, w')
         \<and> Dfn ''write_last_image_file'' [S img, P (PStr ''/tmp/last_img.txt'')] \<in> set (trace w'))
   \<and> isfile station_env boot ''a.nef''
   \<and> \<not> contains ''cloudy_img'' ''a.nef'' \<and> \<not> contains ''clearing'' ''a.nef''
   \<and> handle_new_image station_env ''a.nef'' [] ''/data0/latest'' station_config boot =
       (Inr None,
        \<lparr>clock = 0,
         trace =
           [Os ''path.isfile'' [S ''a.nef''],
            Log INFO ''handle-image_starting'' [S ''a.nef''],
            Dfn ''detect_disk_full'' [],
            Dfn ''rename_RAW'' [S ''a.nef''],
            Log INFO ''making_thumb_for_cloudy'' [S ''a.nef''],
            Dfn ''make_thumb'' [S ''a.nef''],
            Os ''stat'' [S ''a.nef.thumb.jpg''],
            Dfn ''exposure_time'' [S ''a.nef.thumb.jpg''],
            Log INFO ''latest_image'' [S ''a.nef.thumb.jpg'', V ''exposure_time'', V ''imgsize'']],
         ser_global = None\<rparr>)
   \<and> filter pointer_update
         (trace (snd (handle_new_image station_env ''a.nef'' [] ''/data0/latest'' station_config boot)))
       = []"
  using handle_new_image_pointer [where E = "station_env\<lparr>isfile := (\<lambda>w p. False)\<rparr>" and w = boot
      and imgfile = "''a.jpg''" and job_list = "[]" and current_dir = "''/data0/latest''"
      and config_dict = station_config and p = "PStr ''/tmp/last_img.txt''" and q = "PStr ''2''"]
    handle_new_image_pointer [where E = station_env and w = boot
      and imgfile = "''a.jpg''" and job_list = "[]" and current_dir = "''/data0/latest''"
      and config_dict = station_config and p = "PStr ''/tmp/last_img.txt''" and q = "PStr ''2''"]
    handle_new_image_pointer [where E = station_env and w = boot
      and imgfile = "''a.nef''" and job_list = "[]" and current_dir = "''/data0/latest''"
      and config_dict = station_config and p = "PStr ''/tmp/last_img.txt''" and q = "PStr ''2''"]
  by (simp add: handle_new_image_def act_defs station_env_def station_config_def boot_def
        cfg_get_def contains_def sublist_code prefix_code endswith_def suffix_def lower_def
        lower_char_def)

subsection \<open>The night loop\<close>

text \<open>
  C2. The claim is that every pass of the night loop hands the image reference it got to
  the image-handling procedure. No pass does: for every environment a pass adds no
  \<^verbatim>\<open>os.path.isfile\<close> query, the first action of \<^verbatim>\<open>handle_new_image\<close>, to
  the trace, and neither does the loop as a whole; on the station above a pass ends with
  the last log line of the high-rate acquisition. The two twilight loops do make the call.
\<close>

theorem night_loop_skips_handling:
  "filter handling_started (trace (snd (night_body E test_time config_dict b current_dir interval_time csi w)))
     = filter handling_started (trace w)
   \<and> (case night_loop fuel E test_time config_dict b current_dir interval_time csi w of
         None \<Rightarrow> True
       | Some (r, w') \<Rightarrow> filter handling_started (trace w') = filter handling_started (trace w))
   \<and> night_body station_env 0 station_config
         \<lparr>sunset = 0, sunset_after_twilight = 0, sunrise_before_twilight = seconds 240,
          sunrise = seconds 240\<rparr> ''/data0/latest'' ''60'' (- 3) boot =
       (Inr (''a.jpg'', CLEAR),
        \<lparr>clock = 60000000,
         trace =
           [Cc ''read_cloud_status'' [P (PStr ''/tmp/cloud_status.txt'')],
            Print [T 0, S ''sunrise'', T 240000000, I 2],
            Log DEBUG ''cloud_status'' [I 2, I (- 3)],
            Log INFO ''Gone_clear'' [I 2],
            Log INFO ''starting_high_acq_chunk'' [S ''60'', S ''/data0/latest''],
            Leo ''shutter_on'' [],
            Print [S ''hr,'', T 0],
            Sleep 60,
            Leo ''shutter_off'' [],
            Os ''listdir'' [S ''/data0/latest''],
            Log INFO ''finished_high_acq_chunk, img_count'' [I 0],
            Dfn ''rename_RAW_all'' [S ''/data0/latest''],
            Log DEBUG ''renamed_images'' [],
            Dfn ''make_all_thumb'' [S ''/data0/latest''],
            Log DEBUG ''thumbed_images'' [V ''thumbed_images''],
            Dfn ''get_latest_imagefile'' [S ''/data0/latest''],
            Log INFO ''finished_rename_get_latest'' [S ''a.jpg'']],
         ser_global = None\<rparr>)"
proof (intro conjI)
  show "filter handling_started (trace (snd (night_body E test_time config_dict b current_dir interval_time csi w)))
     = filter handling_started (trace w)"
    using keeps_night_body_handling by (simp add: keeps_def)
  show "case night_loop fuel E test_time config_dict b current_dir interval_time csi w of
         None \<Rightarrow> True
       | Some (r, w') \<Rightarrow> filter handling_started (trace w') = filter handling_started (trace w)"
    using night_loop_keeps [of handling_started, OF keeps_night_body_handling]
    by (auto split: option.splits)
  show "night_body station_env 0 station_config
         \<lparr>sunset = 0, sunset_after_twilight = 0, sunrise_before_twilight = seconds 240,
          sunrise = seconds 240\<rparr> ''/data0/latest'' ''60'' (- 3) boot =
       (Inr (''a.jpg'', CLEAR),
        \<lparr>clock = 60000000,
         trace =
           [Cc ''read_cloud_status'' [P (PStr ''/tmp/cloud_status.txt'')],
            Print [T 0, S ''sunrise'', T 240000000, I 2],
            Log DEBUG ''cloud_status'' [I 2, I (- 3)],
            Log INFO ''Gone_clear'' [I 2],
            Log INFO ''starting_high_acq_chunk'' [S ''60'', S ''/data0/latest''],
            Leo ''shutter_on'' [],
            Print [S ''hr,'', T 0],
            Sleep 60,
            Leo ''shutter_off'' [],
            Os ''listdir'' [S ''/data0/latest''],
            Log INFO ''finished_high_acq_chunk, img_count'' [I 0],
            Dfn ''rename_RAW_all'' [S ''/data0/latest''],
            Log DEBUG ''renamed_images'' [],
            Dfn ''make_all_thumb'' [S ''/data0/latest''],
            Log DEBUG ''thumbed_images'' [V ''thumbed_images''],
            Dfn ''get_latest_imagefile'' [S ''/data0/latest''],
            Log INFO ''finished_rename_get_latest'' [S ''a.jpg'']],
         ser_global = None\<rparr>)"
    by (simp add: night_body_def high_acq_def act_defs station_env_def station_config_def
          cfg_get_def boot_def CLEAR_def CLEARING_def
          CLOUDY_def seconds_def py_int_def int_of_str_def strip_def is_space_def parse_nat_def
          is_digit_def digit_val_def)
qed

text \<open>
  C10. In a test run (\<^verbatim>\<open>test_time\<close> not zero, the configuration naming the status
  file of the monitor) a pass of the night loop logs the status it read, overwrites it
  with \<^verbatim>\<open>CLEAR\<close> and runs the high-rate branch, whatever the monitor said; the night
  loop never triggers the single exposure of the low-rate acquisition.
\<close>

theorem night_test_run_forces_clear:
  assumes "test_time \<noteq> 0"
    and "cfg_get config_dict ''internal'' ''cloud_status_file'' = Inr status_file"
  shows "night_body E test_time config_dict b current_dir interval_time csi w =
           bnd (thn (when_do (csi \<noteq> CLEAR) (log INFO ''Gone_clear'' [I CLEAR]))
                    (high_acq E current_dir interval_time config_dict))
               (\<lambda>imgfile. ret (imgfile, CLEAR))
             (w\<lparr>trace := trace w @
                [Cc ''read_cloud_status'' [P status_file],
                 Print [T (clock w), S ''sunrise'', T (sunrise b), I (read_cloud_status E w)],
                 Log DEBUG ''cloud_status'' [I (read_cloud_status E w), I csi],
                 Log DEBUG ''testing_force_clear'' []]\<rparr>)
         \<and> (case night_loop fuel E test_time config_dict b current_dir interval_time csi w of
               None \<Rightarrow> True
             | Some (r, w') \<Rightarrow> filter low_rate_trigger (trace w') = filter low_rate_trigger (trace w))"
proof (intro conjI)
  show "night_body E test_time config_dict b current_dir interval_time csi w =
           bnd (thn (when_do (csi \<noteq> CLEAR) (log INFO ''Gone_clear'' [I CLEAR]))
                    (high_acq E current_dir interval_time config_dict))
               (\<lambda>imgfile. ret (imgfile, CLEAR))
             (w\<lparr>trace := trace w @
                [Cc ''read_cloud_status'' [P status_file],
                 Print [T (clock w), S ''sunrise'', T (sunrise b), I (read_cloud_status E w)],
                 Log DEBUG ''cloud_status'' [I (read_cloud_status E w), I csi],
                 Log DEBUG ''testing_force_clear'' []]\<rparr>)"
    using assms by (simp add: night_body_test) (simp add: act_defs)
  show "case night_loop fuel E test_time config_dict b current_dir interval_time csi w of
               None \<Rightarrow> True
             | Some (r, w') \<Rightarrow> filter low_rate_trigger (trace w') = filter low_rate_trigger (trace w)"
    using night_loop_keeps [of low_rate_trigger, OF keeps_night_body_test [OF assms(1)]]
    by (auto split: option.splits)
qed

theorem night_test_run_forces_clear_witness:
  "night_body (station_env\<lparr>read_cloud_status := (\<lambda>w. CLOUDY)\<rparr>) 240 station_config
       (test_boundaries 240 0) ''/data0/latest'' ''180'' (- 3) boot =
     (Inr (''a.jpg'', CLEAR),
      \<lparr>clock = 180000000,
       trace =
         [Cc ''read_cloud_status'' [P (PStr ''/tmp/cloud_status.txt'')],
          Print [T 0, S ''sunrise'', T 270000000, I 0],
          Log DEBUG ''cloud_status'' [I 0, I (- 3)],
          Log DEBUG ''testing_force_clear'' [],
          Log INFO ''Gone_clear'' [I 2],
          Log INFO ''starting_high_acq_chunk'' [S ''180'', S ''/data0/latest''],
          Leo ''shutter_on'' [],
          Print [S ''hr,'', T 0],
          Sleep 180,
          Leo ''shutter_off'' [],
          Os ''listdir'' [S ''/data0/latest''],
          Log INFO ''finished_high_acq_chunk, img_count'' [I 0],
          Dfn ''rename_RAW_all'' [S ''/data0/latest''],
          Log DEBUG ''renamed_images'' [],
          Dfn ''make_all_thumb'' [S ''/data0/latest''],
          Log DEBUG ''thumbed_images'' [V ''thumbed_images''],
          Dfn ''get_latest_imagefile'' [S ''/data0/latest''],
          Log INFO ''finished_rename_get_latest'' [S ''a.jpg'']],
       ser_global = None\<rparr>)"
  using night_test_run_forces_clear [where test_time = 240
      and E = "station_env\<lparr>read_cloud_status := (\<lambda>w. CLOUDY)\<rparr>"
      and config_dict = station_config and status_file = "PStr ''/tmp/cloud_status.txt''"
      and b = "test_boundaries 240 0" and current_dir = "''/data0/latest''"
      and interval_time = "''180''" and csi = "- 3" and w = boot and fuel = 0]
  by (simp add: station_config_def cfg_get_def high_acq_def act_defs station_env_def boot_def CLEAR_def CLEARING_def
          CLOUDY_def seconds_def py_int_def int_of_str_def strip_def is_space_def parse_nat_def
          is_digit_def digit_val_def test_boundaries_def)

text \<open>
  The mode selection on the sequence Clear, Clearing, Cloudy, undefined, Clear: high-rate,
  low-rate, low-rate, high-rate, high-rate, each pass with its transition line.
\<close>

lemma fuel_5: "(5::nat) = Suc (Suc (Suc (Suc (Suc 0))))" by simp

lemma spec_sequence_on_station:
  "map_option (\<lambda>(r, w'). (r, clock w', filter mode_event (trace w')))
     (night_loop 5 (station_env\<lparr>read_cloud_status := five_readings\<rparr>) 0 station_config
        \<lparr>sunset = 0, sunset_after_twilight = 0, sunrise_before_twilight = seconds 390,
         sunrise = seconds 390\<rparr> ''/data0/latest'' ''60'' (- 3) boot) =
   Some (Inr CLEAR, 390000000,
     [Log INFO ''Gone_clear'' [I 2], Leo ''shutter_on'' [],
      Log INFO ''Gone_clearing'' [I 1], Leo ''single_image'' [],
      Log INFO ''Gone_cloudy'' [I 0], Leo ''single_image'' [],
      Log INFO ''Gone_undefined_cloud_status'' [I 7], Leo ''shutter_on'' [],
      Log INFO ''Gone_clear'' [I 2], Leo ''shutter_on'' []])"
  by (simp add: fuel_5 night_eval five_readings_def cong: weak_congs)

text \<open>
  C3. The claim is that a transition line is logged only when the status differs from
  the one of the pass before. With the monitor reading Cloudy twice in a row, both passes
  log \<^verbatim>\<open>Gone_cloudy\<close>: the Cloudy branch has no comparison with
  \<^verbatim>\<open>cloud_status_internal\<close>, which the Clear and Clearing branches have.
\<close>

theorem night_loop_cloudy_twice:
  "night_loop 2 (station_env\<lparr>read_cloud_status := (\<lambda>w. CLOUDY)\<rparr>) 0 station_config
       \<lparr>sunset = 0, sunset_after_twilight = 0, sunrise_before_twilight = seconds 240,
        sunrise = seconds 240\<rparr> ''/data0/latest'' ''60'' (- 3) boot =
     Some (Inr CLOUDY,
       \<lparr>clock = 240000000,
        trace =
          [Cc ''read_cloud_status'' [P (PStr ''/tmp/cloud_status.txt'')],
           Print [T 0, S ''sunrise'', T 240000000, I 0],
           Log DEBUG ''cloud_status'' [I 0, I (- 3)],
           Log INFO ''Gone_cloudy'' [I 0],
           Log INFO ''starting_low_acq'' [S ''120'', S ''/data0/latest''],
           Sleep 120,
           Leo ''single_image'' [],
           Dfn ''rename_RAW_all'' [S ''/data0/latest''],
           Dfn ''make_all_thumb'' [S ''/data0/latest''],
           Dfn ''get_latest_imagefile'' [S ''/data0/latest''],
           Log DEBUG ''finished_low_acq'' [S ''a.jpg''],
           Cc ''read_cloud_status'' [P (PStr ''/tmp/cloud_status.txt'')],
           Print [T 120000000, S ''sunrise'', T 240000000, I 0],
           Log DEBUG ''cloud_status'' [I 0, I 0],
           Log INFO ''Gone_cloudy'' [I 0],
           Log INFO ''starting_low_acq'' [S ''120'', S ''/data0/latest''],
           Sleep 120,
           Leo ''single_image'' [],
           Dfn ''rename_RAW_all'' [S ''/data0/latest''],
           Dfn ''make_all_thumb'' [S ''/data0/latest''],
           Dfn ''get_latest_imagefile'' [S ''/data0/latest''],
           Log DEBUG ''finished_low_acq'' [S ''a.jpg'']],
        ser_global = None\<rparr>)"
  by (simp add: numeral_2_eq_2 night_body_def low_acq_def act_defs station_env_def station_config_def
        boot_def CLEAR_def CLEARING_def CLOUDY_def seconds_def cfg_get_def str_concat_def
        py_int_def int_of_str_def strip_def is_space_def parse_nat_def is_digit_def digit_val_def)


subsection \<open>Phase boundaries\<close>

text \<open>
  C4, as amended. In a normal run, with the leeway converted to a duration, the boundaries
  are the sun's instants with the leeway applied and the two twilight margins of ten
  minutes. When the computed sunset is not before the computed sunrise (evening start not
  before morning end), the controller sets the evening start to now plus thirty seconds and
  logs \<^verbatim>\<open>late_start-forcing_immediate\<close>, leaving the other three boundaries as
  computed; otherwise it keeps the computed boundaries and logs no such line. The computed
  evening start is before the end of the evening twilight and the computed night end is
  before the morning end; the end of the evening twilight is not after the night end
  exactly when the sunrise is at least twenty minutes after the sunset. A leeway that does
  not convert ends the computation in the exception of the conversion, in a normal run and
  in a test run, right after the query of the sun's instants.
\<close>

theorem compute_boundaries_schedule:
  assumes "cfg_get config_dict ''station'' ''lon'' = Inr lon"
    and "cfg_get config_dict ''station'' ''lat'' = Inr lat"
    and "cfg_get config_dict ''internal'' ''sun_leeway'' = Inr leeway"
    and "generate_sun_and_moon E w = (sun_rise, sun_set, moonrise, moonset)"
  shows "(timedelta_minutes E leeway = Inl e \<longrightarrow>
            compute_boundaries E test_time config_dict w =
              (Inl e, w\<lparr>trace := trace w @ [Sm ''generate_sun_and_moon'' [P lon, P lat]]\<rparr>))
    \<and> (timedelta_minutes E leeway = Inr duration
         \<and> c = apply_leeway duration sun_rise sun_set \<longrightarrow>
          fst (compute_boundaries E 0 config_dict w) =
            Inr (if sunset c \<ge> sunrise c then c\<lparr>sunset := clock w + seconds 30\<rparr> else c)
        \<and> filter late_start (trace (snd (compute_boundaries E 0 config_dict w))) =
            filter late_start (trace w) @
            (if sunset c \<ge> sunrise c then [Log INFO ''late_start-forcing_immediate'' []] else [])
        \<and> sunset c < sunset_after_twilight c
        \<and> sunrise_before_twilight c < sunrise c
        \<and> (sunset_after_twilight c \<le> sunrise_before_twilight c)
            = (minutes 20 \<le> sunrise c - sunset c))"
proof (intro conjI impI)
  assume "timedelta_minutes E leeway = Inl e"
  with assms show "compute_boundaries E test_time config_dict w =
              (Inl e, w\<lparr>trace := trace w @ [Sm ''generate_sun_and_moon'' [P lon, P lat]]\<rparr>)"
    by (simp add: compute_boundaries_def act_defs)
next
  assume a: "timedelta_minutes E leeway = Inr duration
         \<and> c = apply_leeway duration sun_rise sun_set"
  then have d: "timedelta_minutes E leeway = Inr duration"
    and c: "apply_leeway duration sun_rise sun_set = c" by simp_all
  show "fst (compute_boundaries E 0 config_dict w) =
           Inr (if sunset c \<ge> sunrise c then c\<lparr>sunset := clock w + seconds 30\<rparr> else c)"
    using assms d by (simp add: compute_boundaries_def act_defs c)
  show "filter late_start (trace (snd (compute_boundaries E 0 config_dict w))) =
           filter late_start (trace w) @
           (if sunset c \<ge> sunrise c then [Log INFO ''late_start-forcing_immediate'' []] else [])"
    using assms d by (simp add: compute_boundaries_def act_defs c)
  show "sunset c < sunset_after_twilight c"
    by (simp add: c [symmetric] apply_leeway_def minutes_def)
  show "sunrise_before_twilight c < sunrise c"
    by (simp add: c [symmetric] apply_leeway_def minutes_def)
  show "(sunset_after_twilight c \<le> sunrise_before_twilight c) = (minutes 20 \<le> sunrise c - sunset c)"
    by (auto simp add: c [symmetric] apply_leeway_def minutes_def)
qed

theorem compute_boundaries_schedule_witness:
  "fst (compute_boundaries station_env 0 station_config boot) =
     Inr \<lparr>sunset = 3600000000, sunset_after_twilight = 4200000000,
          sunrise_before_twilight = 42600000000, sunrise = 43200000000\<rparr>
   \<and> filter late_start (trace (snd (compute_boundaries station_env 0 station_config boot))) = []
   \<and> fst (compute_boundaries
            (station_env\<lparr>generate_sun_and_moon := (\<lambda>w. (seconds 1800, seconds 3600, 0, 0))\<rparr>)
            0 station_config boot) =
     Inr \<lparr>sunset = 30000000, sunset_after_twilight = 4200000000,
          sunrise_before_twilight = 1200000000, sunrise = 1800000000\<rparr>
   \<and> filter late_start (trace (snd (compute_boundaries
            (station_env\<lparr>generate_sun_and_moon := (\<lambda>w. (seconds 1800, seconds 3600, 0, 0))\<rparr>)
            0 station_config boot))) = [Log INFO ''late_start-forcing_immediate'' []]
   \<and> compute_boundaries station_env 240
        (station_config(''internal'' \<mapsto> [''sun_leeway'' \<mapsto> PStr ''ten''])) boot =
       (Inl ValueError,
        \<lparr>clock = 0,
         trace = [Sm ''generate_sun_and_moon'' [P (PStr ''115.8''), P (PStr ''-32.0'')]],
         ser_global = None\<rparr>)"
  using compute_boundaries_schedule [where config_dict = station_config and lon = "PStr ''115.8''"
      and lat = "PStr ''-32.0''" and leeway = "PStr ''0''" and E = station_env and w = boot
      and sun_rise = "seconds 43200" and sun_set = "seconds 3600" and moonrise = 0 and moonset = 0
      and duration = 0 and c = "apply_leeway 0 (seconds 43200) (seconds 3600)"]
    compute_boundaries_schedule [where config_dict = station_config and lon = "PStr ''115.8''"
      and lat = "PStr ''-32.0''" and leeway = "PStr ''0''"
      and E = "station_env\<lparr>generate_sun_and_moon := (\<lambda>w. (seconds 1800, seconds 3600, 0, 0))\<rparr>"
      and w = boot
      and sun_rise = "seconds 1800" and sun_set = "seconds 3600" and moonrise = 0 and moonset = 0
      and duration = 0 and c = "apply_leeway 0 (seconds 1800) (seconds 3600)"]
    compute_boundaries_schedule [where
      config_dict = "station_config(''internal'' \<mapsto> [''sun_leeway'' \<mapsto> PStr ''ten''])"
      and lon = "PStr ''115.8''" and lat = "PStr ''-32.0''" and leeway = "PStr ''ten''"
      and E = station_env and w = boot and test_time = 240
      and sun_rise = "seconds 43200" and sun_set = "seconds 3600" and moonrise = 0 and moonset = 0
      and e = ValueError]
  by (simp add: station_env_def station_config_def boot_def cfg_get_def apply_leeway_def
        seconds_def minutes_def py_int_def int_of_str_def strip_def is_space_def parse_nat_def
        is_digit_def digit_val_def)

text \<open>
  The claim as stated compares the evening start with the start of the morning twilight.
  With the sunrise five minutes after the sunset the evening start is past the start of the
  morning twilight and nothing is overridden; with the sunrise fifteen minutes after
  the sunset the evening start is before it, and the evening twilight ends after the night.
\<close>

theorem compute_boundaries_counterexample:
  "fst (compute_boundaries
          (station_env\<lparr>generate_sun_and_moon := (\<lambda>w. (seconds 3900, seconds 3600, 0, 0))\<rparr>)
          0 station_config boot) =
     Inr \<lparr>sunset = 3600000000, sunset_after_twilight = 4200000000,
          sunrise_before_twilight = 3300000000, sunrise = 3900000000\<rparr>
   \<and> sunrise_before_twilight
         (apply_leeway 0 (seconds 3900) (seconds 3600)) \<le> sunset (apply_leeway 0 (seconds 3900) (seconds 3600))
   \<and> filter late_start (trace (snd (compute_boundaries
          (station_env\<lparr>generate_sun_and_moon := (\<lambda>w. (seconds 3900, seconds 3600, 0, 0))\<rparr>)
          0 station_config boot))) = []
   \<and> fst (compute_boundaries
          (station_env\<lparr>generate_sun_and_moon := (\<lambda>w. (seconds 4500, seconds 3600, 0, 0))\<rparr>)
          0 station_config boot) =
     Inr \<lparr>sunset = 3600000000, sunset_after_twilight = 4200000000,
          sunrise_before_twilight = 3900000000, sunrise = 4500000000\<rparr>
   \<and> sunset (apply_leeway 0 (seconds 4500) (seconds 3600))
         < sunrise_before_twilight (apply_leeway 0 (seconds 4500) (seconds 3600))
   \<and> \<not> sunset_after_twilight (apply_leeway 0 (seconds 4500) (seconds 3600))
         \<le> sunrise_before_twilight (apply_leeway 0 (seconds 4500) (seconds 3600))"
  by (simp add: compute_boundaries_def act_defs station_env_def station_config_def boot_def cfg_get_def
        apply_leeway_def seconds_def minutes_def py_int_def int_of_str_def strip_def is_space_def
        parse_nat_def is_digit_def digit_val_def)

subsection \<open>Teardown of the night tether\<close>

text \<open>
  C5, as amended. After its sleep and its two polls the teardown sends terminate and,
  when that call returns, kill; neither depends on what the polls answered. There is no
  handler: an error of terminate leaves the teardown before kill is sent, an error of kill
  leaves it after, and with both calls returning the teardown polls twice more and
  raises nothing.
\<close>

theorem tether_teardown_signals:
  "(terminate E (snd (thn (sleep 5) (report_poll E pid) w)) = Some e \<longrightarrow>
      tether_teardown E (Some pid) w =
        (Inl e, (snd (thn (sleep 5) (report_poll E pid) w))
                  \<lparr>trace := trace (snd (thn (sleep 5) (report_poll E pid) w)) @ [Terminate]\<rparr>))
   \<and> (terminate E (snd (thn (sleep 5) (report_poll E pid) w)) = None
        \<and> kill E ((snd (thn (sleep 5) (report_poll E pid) w))
                  \<lparr>trace := trace (snd (thn (sleep 5) (report_poll E pid) w)) @ [Terminate]\<rparr>) = Some e \<longrightarrow>
      tether_teardown E (Some pid) w =
        (Inl e, (snd (thn (sleep 5) (report_poll E pid) w))
                  \<lparr>trace := trace (snd (thn (sleep 5) (report_poll E pid) w)) @ [Terminate, Kill]\<rparr>))
   \<and> (terminate E (snd (thn (sleep 5) (report_poll E pid) w)) = None
        \<and> kill E ((snd (thn (sleep 5) (report_poll E pid) w))
                  \<lparr>trace := trace (snd (thn (sleep 5) (report_poll E pid) w)) @ [Terminate]\<rparr>) = None \<longrightarrow>
      tether_teardown E (Some pid) w =
        report_poll E pid ((snd (thn (sleep 5) (report_poll E pid) w))
                  \<lparr>trace := trace (snd (thn (sleep 5) (report_poll E pid) w)) @ [Terminate, Kill]\<rparr>)
      \<and> fst (tether_teardown E (Some pid) w) = Inr ())"
  by (simp add: tether_teardown_def report_poll_def signal_def act_defs)

theorem tether_teardown_signals_witness:
  "tether_teardown (station_env\<lparr>poll := (\<lambda>w. Some 0), kill := (\<lambda>w. Some OSError)\<rparr>) (Some 4242) boot =
     (Inl OSError,
      \<lparr>clock = 5000000,
       trace = [Sleep 5, Poll, Print [I 0], Poll, Log DEBUG ''Tether_killed'' [I 4242], Terminate, Kill],
       ser_global = None\<rparr>)
   \<and> tether_teardown (station_env\<lparr>poll := (\<lambda>w. Some 0)\<rparr>) (Some 4242) boot =
     (Inr (),
      \<lparr>clock = 5000000,
       trace = [Sleep 5, Poll, Print [I 0], Poll, Log DEBUG ''Tether_killed'' [I 4242],
                Terminate, Kill,
                Poll, Print [I 0], Poll, Log DEBUG ''Tether_killed'' [I 4242]],
       ser_global = None\<rparr>)
   \<and> tether_teardown (station_env\<lparr>terminate := (\<lambda>w. Some OSError)\<rparr>) (Some 4242) boot =
     (Inl OSError,
      \<lparr>clock = 5000000,
       trace = [Sleep 5, Poll, Print [S ''None''], Poll, Log DEBUG ''Tether_not_killed'' [I 4242], Terminate],
       ser_global = None\<rparr>)"
  using tether_teardown_signals [of "station_env\<lparr>poll := (\<lambda>w. Some 0), kill := (\<lambda>w. Some OSError)\<rparr>" 4242 boot OSError]
    tether_teardown_signals [of "station_env\<lparr>poll := (\<lambda>w. Some 0)\<rparr>" 4242 boot OSError]
    tether_teardown_signals [of "station_env\<lparr>terminate := (\<lambda>w. Some OSError)\<rparr>" 4242 boot OSError]
  by (simp add: report_poll_def act_defs station_env_def boot_def seconds_def)

text \<open>
  The claim as stated fails when the handle of an exited process raises on a signal, as
  \<^verbatim>\<open>Popen.terminate\<close> of Python 2.7 does (a plain \<^verbatim>\<open>os.kill\<close> on the pid,
  which the poll before it has reaped): the teardown ends in the error and kill is not sent.
\<close>

theorem tether_teardown_counterexample:
  "poll (station_env\<lparr>poll := (\<lambda>w. Some 0), terminate := (\<lambda>w. Some OSError)\<rparr>) boot = Some 0
   \<and> tether_teardown (station_env\<lparr>poll := (\<lambda>w. Some 0), terminate := (\<lambda>w. Some OSError)\<rparr>)
        (Some 4242) boot =
     (Inl OSError,
      \<lparr>clock = 5000000,
       trace = [Sleep 5, Poll, Print [I 0], Poll, Log DEBUG ''Tether_killed'' [I 4242], Terminate],
       ser_global = None\<rparr>)"
  by (simp add: tether_teardown_def report_poll_def signal_def act_defs station_env_def boot_def seconds_def)

subsection \<open>Launch of the twilight tether\<close>

text \<open>
  The \<^verbatim>\<open>try\<close> statement around the launch: a CalledProcessError enters the handler,
  which resets the backend and lets the phase go on; every other error leaves the statement.
\<close>

lemma twilight_tether_caught:
  assumes "popen E w = Inl CalledProcessError"
  shows "twilight_tether E bound started who w =
           (Inr (), w\<lparr>trace := trace w @
              [Popen [''gphoto2'', ''--capture-tethered'',
                      str_of_int (whole_seconds (bound - clock w)) @ ''s'', ''--force-overwrite''],
               Log WARNING ''argh-problem_starting_tether'' [V ''e''],
               Print [S who, T (clock w), V ''e''],
               SubprocessCall [''gphoto2'', ''--reset''],
               Log INFO ''gphoto_reset'' [V ''res'']]\<rparr>)"
  using assms by (simp add: twilight_tether_def try_popen_def tether_reset_def act_defs)

lemma twilight_tether_uncaught:
  assumes "popen E w = Inl e" and "e \<noteq> CalledProcessError"
  shows "twilight_tether E bound started who w =
           (Inl e, w\<lparr>trace := trace w @
              [Popen [''gphoto2'', ''--capture-tethered'',
                      str_of_int (whole_seconds (bound - clock w)) @ ''s'', ''--force-overwrite'']]\<rparr>)"
  using assms by (simp add: twilight_tether_def try_popen_def act_defs)

text \<open>
  C6. The claim is that a failed launch of the twilight tether is answered by a reset of
  the backend and that the session goes on. \<^verbatim>\<open>subprocess.Popen\<close> reports a failed
  launch with OSError; the handler names \<^verbatim>\<open>subprocess.CalledProcessError\<close>, so
  the error leaves the phase: no reset, no acquisition loop, in the evening and in the
  morning alike.
\<close>

theorem twilight_launch_failure:
  "evening_twilight 1 (station_env\<lparr>popen := (\<lambda>w. Inl OSError)\<rparr>) 0 station_config
       \<lparr>sunset = 0, sunset_after_twilight = seconds 600, sunrise_before_twilight = seconds 3000,
        sunrise = seconds 3600\<rparr> ''/data0/latest'' ''60'' [] boot =
     Some (Inl OSError,
       \<lparr>clock = 0,
        trace =
          [Log INFO ''twilight_evening_settings'' [],
           Cam ''camera_set_quality'' [I 2],
           Cam ''camera_set_shutter'' [P (PStr ''25'')],
           Cam ''camera_set_iso'' [P (PStr ''3200'')],
           Log INFO ''twilight_evening_starting'' [],
           Popen [''gphoto2'', ''--capture-tethered'', ''600s'', ''--force-overwrite'']],
        ser_global = None\<rparr>)
   \<and> morning_twilight 1 (station_env\<lparr>popen := (\<lambda>w. Inl OSError)\<rparr>) 0 station_config
       \<lparr>sunset = 0, sunset_after_twilight = seconds 600, sunrise_before_twilight = seconds 3000,
        sunrise = seconds 3600\<rparr> ''/data0/latest'' ''60'' [] (boot\<lparr>clock := seconds 3000\<rparr>) =
     Some (Inl OSError,
       \<lparr>clock = 3000000000,
        trace =
          [Log INFO ''twilight_morning_settings'' [],
           Cam ''camera_set_quality'' [I 2],
           Cam ''camera_set_shutter'' [P (PStr ''25'')],
           Cam ''camera_set_iso'' [P (PStr ''3200'')],
           Log INFO ''twilight_morning_start'' [],
           Popen [''gphoto2'', ''--capture-tethered'', ''600s'', ''--force-overwrite'']],
        ser_global = None\<rparr>)"
  by (simp add: evening_twilight_def morning_twilight_def twilight_settings_def twilight_tether_def
        try_popen_def rbnd_def run_of_def act_defs station_env_def station_config_def boot_def
        cfg_get_def seconds_def JPG_MODE_def whole_seconds_def str_of_int_def
        digits.simps digit_char_def)

subsection \<open>A test run of 240 seconds\<close>










































end
